theory Spec2Isabelle
  imports Complex_Main "HOL-Library.AList" "HOL-Library.Sublist"
begin

section \<open>The retrieval-augmented question answering engine of BioScout (ragSystem.ts)\<close>

text \<open>
  The embedding follows \<^verbatim>\<open>server/ragSystem.ts\<close> function by function. Conventions:
  \<^item> a JavaScript string is a \<^typ>\<open>string\<close>: a list of code units, each below 256 (Latin-1);
  \<^item> a JavaScript number is a \<^typ>\<open>real\<close>: rounding of doubles is not modelled;
  \<^item> a value that arithmetic reads as \<open>NaN\<close> (\<open>NaN\<close> itself, or a string that is not a
    numeral) is \<open>NotNum\<close>;
  \<^item> a \<^verbatim>\<open>throw\<close> is the left summand of \<open>exn + 'a\<close>, a \<^verbatim>\<open>catch\<close> is a case on it.
\<close>

subsection \<open>Values\<close>

datatype exn = Error string

datatype jsval = Num real | NotNum

text \<open>\<^verbatim>\<open>a + b\<close>: the sum of two numbers; with \<open>NaN\<close> it is \<open>NaN\<close>, with a string it is the
  concatenation, which is again no numeral for the strings that occur here.\<close>

fun jsadd :: "jsval \<Rightarrow> jsval \<Rightarrow> jsval" where
  "jsadd (Num a) (Num b) = Num (a + b)"
| "jsadd _ _ = NotNum"

text \<open>\<^verbatim>\<open>a * b\<close>: both operands are converted to numbers first.\<close>

fun jsmul :: "jsval \<Rightarrow> jsval \<Rightarrow> jsval" where
  "jsmul (Num a) (Num b) = Num (a * b)"
| "jsmul _ _ = NotNum"

fun jssqrt :: "jsval \<Rightarrow> jsval" where
  "jssqrt (Num a) = (if a < 0 then NotNum else Num (sqrt a))"
| "jssqrt NotNum = NotNum"

subsection \<open>Data model\<close>

record RetrievalResult =
  text_rr :: string
  source_rr :: string
  score_rr :: real

record AnswerResult =
  text_ar :: string
  sources_ar :: "string list"
  relatedObservationIds :: "string list option"
  relatedSpeciesIds :: "string list option"

text \<open>The records of \<^verbatim>\<open>shared/schema.ts\<close>, with the fields the engine reads. The two
  coordinates of an observation are kept as the strings \<^verbatim>\<open>join\<close> renders them to.\<close>

record Knowledge =
  title :: string
  content :: string
  source_kn :: "string option"

record Species =
  scientificName :: string
  commonNames :: "string list"
  description_sp :: string
  habitat :: string
  type_sp :: string

record Observation =
  speciesName :: string
  coordinates :: "string list"
  description_ob :: "string option"
  createdAt :: nat

text \<open>The three collections as \<^verbatim>\<open>db.collection(..).find({}).toArray()\<close> yields them: the
  documents in the order of the store, or a failure of the driver.\<close>

record database =
  knowledgeColl :: "exn + Knowledge list"
  speciesColl :: "exn + Species list"
  observationsColl :: "exn + Observation list"

subsection \<open>storage.ts: the accessors catch every failure and return no documents\<close>

definition getAllKnowledge :: "database \<Rightarrow> Knowledge list" where
  "getAllKnowledge db = (case knowledgeColl db of Inl e \<Rightarrow> [] | Inr knowledge \<Rightarrow> knowledge)"

definition getAllSpecies :: "database \<Rightarrow> Species list" where
  "getAllSpecies db = (case speciesColl db of Inl e \<Rightarrow> [] | Inr species \<Rightarrow> species)"

definition getAllObservations :: "database \<Rightarrow> Observation list" where
  "getAllObservations db =
     (case observationsColl db of Inl e \<Rightarrow> [] | Inr observations \<Rightarrow> observations)"

subsection \<open>Strings\<close>

definition toLowerChar :: "char \<Rightarrow> char" where
  "toLowerChar c =
     (let n = (of_char c :: nat)
      in if (65 \<le> n \<and> n \<le> 90) \<or> (192 \<le> n \<and> n \<le> 222 \<and> n \<noteq> 215)
         then char_of (n + 32) else c)"

definition toLowerCase :: "string \<Rightarrow> string" where
  "toLowerCase s = map toLowerChar s"

text \<open>The class \<^verbatim>\<open>\w\<close> is \<^verbatim>\<open>[A-Za-z0-9_]\<close>; the class \<^verbatim>\<open>\s\<close> below 256 is tab, line feed,
  vertical tab, form feed, carriage return, space and the no-break space.\<close>

definition isWordChar :: "char \<Rightarrow> bool" where
  "isWordChar c =
     (let n = (of_char c :: nat)
      in (48 \<le> n \<and> n \<le> 57) \<or> (65 \<le> n \<and> n \<le> 90) \<or> n = 95 \<or> (97 \<le> n \<and> n \<le> 122))"

definition isSpace :: "char \<Rightarrow> bool" where
  "isSpace c = ((of_char c :: nat) \<in> {9, 10, 11, 12, 13, 32, 160})"

text \<open>\<^verbatim>\<open>s.split(/\s+/)\<close>: the pieces between maximal runs of white space; white space at an
  end gives an empty piece there, and the empty string gives one empty piece.\<close>

function splitSpaces :: "string \<Rightarrow> string list" where
  "splitSpaces [] = [[]]"
| "splitSpaces (c # cs) =
     (if isSpace c then [] # splitSpaces (dropWhile isSpace cs)
      else (case splitSpaces cs of [] \<Rightarrow> [[c]] | w # ws \<Rightarrow> (c # w) # ws))"
  by pat_completeness auto
termination
  by (relation "measure length") (auto simp: le_imp_less_Suc length_dropWhile_le)

definition join :: "string \<Rightarrow> string list \<Rightarrow> string" where
  "join sep xs = (case xs of [] \<Rightarrow> [] | y # ys \<Rightarrow> foldl (\<lambda>acc x. acc @ sep @ x) y ys)"

text \<open>\<^verbatim>\<open>s.includes(sub)\<close>.\<close>

definition includes_str :: "string \<Rightarrow> string \<Rightarrow> bool" where
  "includes_str s sub = sublist sub s"

subsection \<open>createEmbedding\<close>

definition VECTOR_SIZE :: nat where
  "VECTOR_SIZE = 128"

text \<open>\<^verbatim>\<open>text.toLowerCase().replace(/[^\w\s]/g, '').split(/\s+/)\<close>\<close>

definition words_of :: "string \<Rightarrow> string list" where
  "words_of text = splitSpaces (filter (\<lambda>c. isWordChar c \<or> isSpace c) (toLowerCase text))"

text \<open>
  \<^verbatim>\<open>wordFreq[word] = (wordFreq[word] || 0) + 1\<close> on the object \<^verbatim>\<open>wordFreq = {}\<close>, kept as
  the list of its own properties in insertion order. The read \<^verbatim>\<open>wordFreq[word]\<close> of a word that
  is no own property goes to \<^verbatim>\<open>Object.prototype\<close>: of the words that can occur here (lower
  case letters, digits, underscore) it has \<^verbatim>\<open>constructor\<close> (a function) and \<^verbatim>\<open>__proto__\<close> (an
  object), both truthy, and adding 1 to either gives a string. The write to \<^verbatim>\<open>__proto__\<close> is the
  inherited setter, which ignores a string; every other write makes an own property.
\<close>

definition countWord :: "(string \<times> jsval) list \<Rightarrow> string \<Rightarrow> (string \<times> jsval) list" where
  "countWord wordFreq word =
     (if length word > 2 then
        (let freq = (case map_of wordFreq word of
                       Some v \<Rightarrow> jsadd v (Num 1)
                     | None \<Rightarrow> if word = ''constructor'' \<or> word = ''__proto__''
                               then NotNum else Num 1)
         in if word = ''__proto__'' then wordFreq else AList.update word freq wordFreq)
      else wordFreq)"

text \<open>\<^verbatim>\<open>hash << 5\<close> converts to a 32-bit signed integer, before and after the shift; the
  subtraction and the addition are those of numbers, and stay exact for every word shorter
  than two million characters.\<close>

definition toInt32 :: "int \<Rightarrow> int" where
  "toInt32 x = (x + 2 ^ 31) mod 2 ^ 32 - 2 ^ 31"

definition hashStep :: "int \<Rightarrow> char \<Rightarrow> int" where
  "hashStep hash c = (toInt32 (toInt32 hash * 32) - hash) + of_char c"

definition hashCode :: "string \<Rightarrow> int" where
  "hashCode word = foldl hashStep 0 word"

definition position :: "string \<Rightarrow> nat" where
  "position word = nat (\<bar>hashCode word\<bar> mod int VECTOR_SIZE)"

definition addEntry :: "jsval list \<Rightarrow> string \<times> jsval \<Rightarrow> jsval list" where
  "addEntry embedding e =
     (case e of (word, freq) \<Rightarrow>
        embedding[position word := jsadd (embedding ! position word) freq])"

text \<open>\<^verbatim>\<open>Math.sqrt(embedding.reduce((sum, val) => sum + val * val, 0))\<close>\<close>

definition magnitude :: "jsval list \<Rightarrow> jsval" where
  "magnitude embedding = jssqrt (foldl (\<lambda>sum val. jsadd sum (jsmul val val)) (Num 0) embedding)"

definition createEmbedding :: "string \<Rightarrow> jsval list" where
  "createEmbedding text =
     (let wordFreq = foldl countWord [] (words_of text);
          embedding = foldl addEntry (replicate VECTOR_SIZE (Num 0)) wordFreq
      in case magnitude embedding of
           Num m \<Rightarrow>
             if m > 0
             then map (\<lambda>val. case val of Num v \<Rightarrow> Num (v / m) | NotNum \<Rightarrow> NotNum) embedding
             else embedding
         | NotNum \<Rightarrow> embedding)"

subsection \<open>calculateSimilarity\<close>

definition calculateSimilarity :: "jsval list \<Rightarrow> jsval list \<Rightarrow> exn + jsval" where
  "calculateSimilarity embedding1 embedding2 =
     (if length embedding1 \<noteq> length embedding2
      then Inl (Error ''Embeddings must have the same dimensions'')
      else Inr (foldl (\<lambda>dotProduct (a, b). jsadd dotProduct (jsmul a b)) (Num 0)
                  (zip embedding1 embedding2)))"

subsection \<open>retrieveRelevantInfo\<close>

text \<open>The texts and labels built for the three kinds of record: the text that is embedded,
  the text of the result and its source label.\<close>

definition knowledgeDoc :: "Knowledge \<Rightarrow> string \<times> string \<times> string" where
  "knowledgeDoc entry =
     (title entry @ '' '' @ content entry,
      content entry,
      (case source_kn entry of
         None \<Rightarrow> ''Internal Knowledge Base''
       | Some s \<Rightarrow> if s = [] then ''Internal Knowledge Base'' else s))"

definition speciesText :: "Species \<Rightarrow> string" where
  "speciesText specie =
     scientificName specie @ '' ('' @ join '', '' (commonNames specie) @ ''): ''
       @ description_sp specie @ ''. Habitat: '' @ habitat specie
       @ ''. Type: '' @ type_sp specie @ ''.''"

definition speciesDoc :: "Species \<Rightarrow> string \<times> string \<times> string" where
  "speciesDoc specie =
     (speciesText specie, speciesText specie, ''Species Database: '' @ scientificName specie)"

definition obsText :: "Observation \<Rightarrow> string" where
  "obsText observation =
     ''Observation of '' @ speciesName observation @ '' at coordinates [''
       @ join '', '' (coordinates observation) @ '']. ''
       @ (case description_ob observation of None \<Rightarrow> [] | Some d \<Rightarrow> d)"

definition obsDoc :: "Observation \<Rightarrow> string \<times> string \<times> string" where
  "obsDoc observation =
     (obsText observation, obsText observation,
      ''User Observation: '' @ speciesName observation)"

text \<open>\<^verbatim>\<open>if (similarity > 0.2) { results.push({ text, source, score: similarity }) }\<close>: the
  comparison is false for \<open>NaN\<close>.\<close>

definition pushIfRelevant ::
  "RetrievalResult list \<Rightarrow> string \<Rightarrow> string \<Rightarrow> jsval \<Rightarrow> RetrievalResult list" where
  "pushIfRelevant results shown label v =
     (case v of
        Num similarity \<Rightarrow>
          if similarity > 0.2
          then results @ [\<lparr>text_rr = shown, source_rr = label, score_rr = similarity\<rparr>]
          else results
      | NotNum \<Rightarrow> results)"

text \<open>One of the three loops: embed the record's text, compare it with the query, push the
  result when it is relevant. A throw leaves the loop.\<close>

fun scoreLoop ::
  "jsval list \<Rightarrow> ('a \<Rightarrow> string \<times> string \<times> string) \<Rightarrow> 'a list \<Rightarrow> RetrievalResult list
     \<Rightarrow> exn + RetrievalResult list" where
  "scoreLoop queryEmbedding doc [] results = Inr results"
| "scoreLoop queryEmbedding doc (x # xs) results =
     (case doc x of (embedded, shown, label) \<Rightarrow>
        (case calculateSimilarity queryEmbedding (createEmbedding embedded) of
           Inl e \<Rightarrow> Inl e
         | Inr similarity \<Rightarrow>
             scoreLoop queryEmbedding doc xs (pushIfRelevant results shown label similarity)))"

text \<open>\<^verbatim>\<open>observations.slice(0, 50)\<close>\<close>

definition recentObservations :: "database \<Rightarrow> Observation list" where
  "recentObservations db = take 50 (getAllObservations db)"

text \<open>\<^verbatim>\<open>results.sort((a, b) => b.score - a.score)\<close>: the stable sort by descending score.\<close>

definition sortByScore :: "RetrievalResult list \<Rightarrow> RetrievalResult list" where
  "sortByScore results = sort_key (\<lambda>r. - score_rr r) results"

definition retrieveRelevantInfo_try :: "database \<Rightarrow> string \<Rightarrow> exn + RetrievalResult list" where
  "retrieveRelevantInfo_try db query =
     (let queryEmbedding = createEmbedding query
      in case scoreLoop queryEmbedding knowledgeDoc (getAllKnowledge db) [] of
           Inl e \<Rightarrow> Inl e
         | Inr results1 \<Rightarrow>
        (case scoreLoop queryEmbedding speciesDoc (getAllSpecies db) results1 of
           Inl e \<Rightarrow> Inl e
         | Inr results2 \<Rightarrow>
        (case scoreLoop queryEmbedding obsDoc (recentObservations db) results2 of
           Inl e \<Rightarrow> Inl e
         | Inr results3 \<Rightarrow> Inr (take 5 (sortByScore results3)))))"

definition retrieveRelevantInfo :: "database \<Rightarrow> string \<Rightarrow> RetrievalResult list" where
  "retrieveRelevantInfo db query =
     (case retrieveRelevantInfo_try db query of Inl e \<Rightarrow> [] | Inr results \<Rightarrow> results)"

subsection \<open>searchInternet\<close>

definition internetResult :: "string \<Rightarrow> RetrievalResult" where
  "internetResult query =
     \<lparr>text_rr = ''Information about '' @ query @ '' in Islamabad region could be found in local guidebooks or by contacting the Islamabad Wildlife Management Board. The Margalla Hills National Park is home to diverse wildlife including various bird species, monkeys, and occasionally leopards.'',
      source_rr = ''Internet Search Result (Note: Without internet access, this is general information)'',
      score_rr = 0.6\<rparr>"

text \<open>The body of the \<^verbatim>\<open>try\<close>: the search query is built and not used, a timer of half a
  second is awaited, and the simulated result is returned.\<close>

definition searchInternet_try :: "string \<Rightarrow> exn + RetrievalResult list" where
  "searchInternet_try query =
     (let searchQuery = query @ '' Islamabad Pakistan biodiversity flora fauna''
      in Inr [internetResult query])"

definition searchInternet :: "string \<Rightarrow> RetrievalResult list" where
  "searchInternet query =
     (case searchInternet_try query of Inl e \<Rightarrow> [] | Inr results \<Rightarrow> results)"

subsection \<open>generateResponse\<close>

definition newline :: string where
  "newline = [CHR 0x0A]"

definition noInformation :: "string \<Rightarrow> string" where
  "noInformation query =
     ''I don't have specific information about '' @ query @ ''. You might want to consult local experts or biodiversity guides specific to the Islamabad region.''"

definition couldNotGenerate :: "string \<Rightarrow> string" where
  "couldNotGenerate query =
     ''I found some information about '' @ query @ '', but couldn't generate a proper response. Please try asking in a different way.''"

text \<open>The opening of the response: the first of the three kinds of question that a term of
  the query names, species before location before sighting.\<close>

definition initialResponse :: "string \<Rightarrow> string list \<Rightarrow> RetrievalResult list \<Rightarrow> string" where
  "initialResponse query queryTerms retrievedInfo =
     (let isSpeciesQuery = list_ex (\<lambda>t. t \<in> set
            [''what'', ''species'', ''animal'', ''plant'', ''describe'', ''identify'']) queryTerms;
          isLocationQuery = list_ex (\<lambda>t. t \<in> set
            [''where'', ''habitat'', ''found'', ''live'', ''location'', ''area'', ''region'']) queryTerms;
          isSightingQuery = list_ex (\<lambda>t. t \<in> set
            [''seen'', ''spotted'', ''observed'', ''sighting'', ''reported'', ''found'']) queryTerms
      in if isSpeciesQuery then
           (case find (\<lambda>info. includes_str (source_rr info) ''Species Database'') retrievedInfo of
              Some speciesInfo \<Rightarrow>
                ''Based on our information: '' @ text_rr speciesInfo @ newline @ newline
            | None \<Rightarrow>
                ''I found some information that might help answer your question about species in Islamabad:''
                  @ newline @ newline)
         else if isLocationQuery then
           ''Regarding the habitat and location in Islamabad region:'' @ newline @ newline
         else if isSightingQuery then
           (let observations =
                  filter (\<lambda>info. includes_str (source_rr info) ''User Observation'') retrievedInfo
            in if length observations > 0 then
                 ''Here are some relevant observations from our community:'' @ newline @ newline
                   @ join newline (map (\<lambda>obs. ''- '' @ text_rr obs) observations)
                   @ newline @ newline
               else
                 ''I couldn't find specific observations matching your query, but here's what I know:''
                   @ newline @ newline)
         else
           ''Here's what I found about '' @ [CHR 0x22] @ query @ [CHR 0x22]
             @ '' related to Islamabad's biodiversity:'' @ newline @ newline)"

text \<open>The body of the \<^verbatim>\<open>try\<close>. Reading \<^verbatim>\<open>retrievedInfo[0].text\<close> of an empty array
  throws.\<close>

definition generateResponse_try :: "string \<Rightarrow> RetrievalResult list \<Rightarrow> exn + string" where
  "generateResponse_try query retrievedInfo =
     (let queryTerms = splitSpaces (toLowerCase query);
          keyTerms = filter (\<lambda>t. length t > 3) queryTerms;
          response = initialResponse query queryTerms retrievedInfo
      in case retrievedInfo of
           [] \<Rightarrow> Inl (Error ''TypeError'')
         | info0 # others \<Rightarrow>
             (let response1 = (if \<not> includes_str response (text_rr info0)
                               then response @ text_rr info0 @ newline @ newline
                               else response)
              in if length retrievedInfo > 1
                 then Inr (foldl (\<lambda>r info. r @ ''- '' @ text_rr info @ newline)
                             (response1 @ ''Additional information:'' @ newline)
                             (take 2 (drop 1 retrievedInfo)))
                 else Inr response1))"

definition generateResponse :: "string \<Rightarrow> RetrievalResult list \<Rightarrow> string" where
  "generateResponse query retrievedInfo =
     (if length retrievedInfo = 0 then noInformation query
      else (let context = join (newline @ newline) (map text_rr retrievedInfo)
            in case generateResponse_try query retrievedInfo of
                 Inl e \<Rightarrow> couldNotGenerate query
               | Inr response \<Rightarrow> response))"

subsection \<open>answerWithRAG\<close>

text \<open>The orchestrator, first over any three callees, each of which may throw, with the
  calls it makes recorded in order; then with the callees of the module.\<close>

datatype call = RetrieveRelevantInfo | SearchInternet | GenerateResponse

definition systemError :: AnswerResult where
  "systemError =
     \<lparr>text_ar = ''Sorry, I encountered an error while processing your question. Please try again later.'',
      sources_ar = [''System Error''],
      relatedObservationIds = None,
      relatedSpeciesIds = None\<rparr>"

text \<open>\<^verbatim>\<open>if (retrievalResults.length < 2) { ... [...retrievalResults, ...internetResults] }\<close>\<close>

definition fallback ::
  "(string \<Rightarrow> exn + RetrievalResult list) \<Rightarrow> string \<Rightarrow> RetrievalResult list
     \<Rightarrow> call list \<times> (exn + RetrievalResult list)" where
  "fallback search query retrievalResults =
     (if length retrievalResults < 2
      then (case search query of
              Inl e \<Rightarrow> ([SearchInternet], Inl e)
            | Inr internetResults \<Rightarrow> ([SearchInternet], Inr (retrievalResults @ internetResults)))
      else ([], Inr retrievalResults))"

definition answerWithRAG_try ::
  "(string \<Rightarrow> exn + RetrievalResult list) \<Rightarrow> (string \<Rightarrow> exn + RetrievalResult list)
     \<Rightarrow> (string \<Rightarrow> RetrievalResult list \<Rightarrow> exn + string) \<Rightarrow> string
     \<Rightarrow> call list \<times> (exn + AnswerResult)" where
  "answerWithRAG_try retrieve search compose query =
     (case retrieve query of
        Inl e \<Rightarrow> ([RetrieveRelevantInfo], Inl e)
      | Inr localResults \<Rightarrow>
          (case fallback search query localResults of
             (calls, Inl e) \<Rightarrow> (RetrieveRelevantInfo # calls, Inl e)
           | (calls, Inr retrievalResults) \<Rightarrow>
               (case compose query retrievalResults of
                  Inl e \<Rightarrow> (RetrieveRelevantInfo # calls @ [GenerateResponse], Inl e)
                | Inr answerText \<Rightarrow>
                    (RetrieveRelevantInfo # calls @ [GenerateResponse],
                     Inr \<lparr>text_ar = answerText,
                          sources_ar = map source_rr retrievalResults,
                          relatedObservationIds = Some [],
                          relatedSpeciesIds = Some []\<rparr>))))"

definition answerWithRAG_with ::
  "(string \<Rightarrow> exn + RetrievalResult list) \<Rightarrow> (string \<Rightarrow> exn + RetrievalResult list)
     \<Rightarrow> (string \<Rightarrow> RetrievalResult list \<Rightarrow> exn + string) \<Rightarrow> string
     \<Rightarrow> call list \<times> (exn + AnswerResult)" where
  "answerWithRAG_with retrieve search compose query =
     (case answerWithRAG_try retrieve search compose query of
        (calls, Inl e) \<Rightarrow> (calls, Inr systemError)
      | (calls, Inr answer) \<Rightarrow> (calls, Inr answer))"

definition answerWithRAG :: "database \<Rightarrow> string \<Rightarrow> call list \<times> (exn + AnswerResult)" where
  "answerWithRAG db query =
     answerWithRAG_with
       (\<lambda>q. Inr (retrieveRelevantInfo db q))
       (\<lambda>q. Inr (searchInternet q))
       (\<lambda>q retrievedInfo. Inr (generateResponse q retrievedInfo))
       query"

subsection \<open>Frequencies that are counts\<close>

text \<open>The own properties of \<^verbatim>\<open>wordFreq\<close> are all numbers, each at least 1.\<close>

definition counted :: "(string \<times> jsval) list \<Rightarrow> bool" where
  "counted wordFreq = list_all (\<lambda>(w, v). \<exists>k. v = Num k \<and> 1 \<le> k) wordFreq"

subsection \<open>Example corpora\<close>

definition emptyDb :: database where
  "emptyDb = \<lparr>knowledgeColl = Inr [], speciesColl = Inr [], observationsColl = Inr []\<rparr>"

definition hawkEntry :: Knowledge where
  "hawkEntry =
     \<lparr>title = ''Eagle'',
      content = ''eagle eagle eagle eagle hawk hawk hawk hawk hawk hawk hawk hawk hawk hawk hawk hawk'',
      source_kn = None\<rparr>"

definition guideEntry :: Knowledge where
  "guideEntry = \<lparr>title = ''Eagle'', content = ''An eagle.'', source_kn = Some ''Field guide''\<rparr>"

definition hawkDb :: database where
  "hawkDb = \<lparr>knowledgeColl = Inr [hawkEntry], speciesColl = Inr [], observationsColl = Inr []\<rparr>"

definition eagleDb :: database where
  "eagleDb =
     \<lparr>knowledgeColl = Inr [hawkEntry, guideEntry, hawkEntry, guideEntry, hawkEntry, guideEntry],
      speciesColl = Inr [], observationsColl = Inr []\<rparr>"

text \<open>Fifty-one sightings in the order of their insertion, the newest last.\<close>

definition sighting :: "nat \<Rightarrow> Observation" where
  "sighting n =
     \<lparr>speciesName = ''Leopard'', coordinates = [''73.05'', ''33.68''],
      description_ob = None, createdAt = n\<rparr>"

definition sightingsDb :: database where
  "sightingsDb =
     \<lparr>knowledgeColl = Inr [], speciesColl = Inr [],
      observationsColl = Inr (map sighting [1..<52])\<rparr>"

section \<open>Properties\<close>

subsection \<open>The simulated search and the empty composition\<close>

lemma searchInternet_eq: "searchInternet query = [internetResult query]"
  by (simp add: searchInternet_def searchInternet_try_def)

text \<open>
  Claim C10. For every query, \<^verbatim>\<open>searchInternet\<close> returns exactly one document: its score is
  0.6, its source label marks it as an internet search result, and its text is the fixed
  template around the query. The body of the \<^verbatim>\<open>try\<close> does not throw, the result is never
  empty, and nothing but the query enters it.
\<close>

theorem searchInternet_one_result:
  "searchInternet_try query = Inr (searchInternet query)
   \<and> searchInternet query =
       [\<lparr>text_rr = ''Information about '' @ query @ '' in Islamabad region could be found in local guidebooks or by contacting the Islamabad Wildlife Management Board. The Margalla Hills National Park is home to diverse wildlife including various bird species, monkeys, and occasionally leopards.'',
         source_rr = ''Internet Search Result (Note: Without internet access, this is general information)'',
         score_rr = 0.6\<rparr>]"
  by (simp add: searchInternet_def searchInternet_try_def internetResult_def)

theorem searchInternet_one_result_witness:
  "length (searchInternet ''owl'') = 1 \<and> score_rr (hd (searchInternet ''owl'')) = 0.6
   \<and> text_rr (hd (searchInternet ''owl'')) = ''Information about owl in Islamabad region could be found in local guidebooks or by contacting the Islamabad Wildlife Management Board. The Margalla Hills National Park is home to diverse wildlife including various bird species, monkeys, and occasionally leopards.''
   \<and> (\<exists>results. searchInternet_try ''owl'' = Inr results)"
  using searchInternet_one_result [of "''owl''"] by simp

text \<open>
  Claim C9. For every query, \<^verbatim>\<open>generateResponse\<close> on the empty sequence of documents
  returns the fixed message that names the query and suggests local experts; it is an
  ordinary result, not an error.
\<close>

theorem generateResponse_empty:
  "generateResponse query [] =
     ''I don't have specific information about '' @ query @ ''. You might want to consult local experts or biodiversity guides specific to the Islamabad region.''"
  by (simp add: generateResponse_def noInformation_def)

theorem generateResponse_empty_witness:
  "generateResponse ''leopards nearby'' [] =
     ''I don't have specific information about leopards nearby. You might want to consult local experts or biodiversity guides specific to the Islamabad region.''"
  using generateResponse_empty [of "''leopards nearby''"] by simp

subsection \<open>The orchestrator\<close>

lemma answerWithRAG_try_module:
  "answerWithRAG_try (\<lambda>q. Inr (retrieveRelevantInfo db q)) (\<lambda>q. Inr (searchInternet q))
     (\<lambda>q retrievedInfo. Inr (generateResponse q retrievedInfo)) query =
   (let localResults = retrieveRelevantInfo db query;
        external = (if length localResults < 2 then searchInternet query else [])
    in (if length localResults < 2
        then [RetrieveRelevantInfo, SearchInternet, GenerateResponse]
        else [RetrieveRelevantInfo, GenerateResponse],
        Inr \<lparr>text_ar = generateResponse query (localResults @ external),
             sources_ar = map source_rr localResults @ map source_rr external,
             relatedObservationIds = Some [],
             relatedSpeciesIds = Some []\<rparr>))"
  by (simp add: answerWithRAG_try_def fallback_def Let_def)

lemma retrieve_emptyDb: "retrieveRelevantInfo emptyDb query = []"
  by (simp add: retrieveRelevantInfo_def retrieveRelevantInfo_try_def emptyDb_def
      getAllKnowledge_def getAllSpecies_def getAllObservations_def recentObservations_def
      sortByScore_def)

text \<open>
  Claim C5. Whatever the three callees do, \<^verbatim>\<open>answerWithRAG\<close> returns an answer and never
  throws; when retrieval throws, when the fallback search is called and throws, or when the
  composition throws, the answer is the fixed one: the generic failure message with the
  single source \<^verbatim>\<open>System Error\<close>.
\<close>

theorem answerWithRAG_never_throws:
  "(\<exists>answer. snd (answerWithRAG_with retrieve search compose query) = Inr answer)
   \<and> (\<forall>e. snd (answerWithRAG_try retrieve search compose query) = Inl e \<longrightarrow>
          snd (answerWithRAG_with retrieve search compose query) =
            Inr \<lparr>text_ar = ''Sorry, I encountered an error while processing your question. Please try again later.'',
                 sources_ar = [''System Error''],
                 relatedObservationIds = None, relatedSpeciesIds = None\<rparr>)
   \<and> (\<forall>e. retrieve query = Inl e \<longrightarrow>
          snd (answerWithRAG_try retrieve search compose query) = Inl e)
   \<and> (\<forall>e localResults. retrieve query = Inr localResults \<and> length localResults < 2
          \<and> search query = Inl e \<longrightarrow>
          snd (answerWithRAG_try retrieve search compose query) = Inl e)
   \<and> (\<forall>e localResults retrievalResults. retrieve query = Inr localResults
          \<and> snd (fallback search query localResults) = Inr retrievalResults
          \<and> compose query retrievalResults = Inl e \<longrightarrow>
          snd (answerWithRAG_try retrieve search compose query) = Inl e)"
  by (auto simp: answerWithRAG_with_def answerWithRAG_try_def fallback_def systemError_def
           split: sum.splits prod.splits if_splits)

theorem answerWithRAG_never_throws_witness:
  "snd (answerWithRAG_with (\<lambda>q. Inl (Error ''text.toLowerCase is not a function''))
          (\<lambda>q. Inr (searchInternet q)) (\<lambda>q info. Inr (generateResponse q info)) ''owl'') =
     Inr \<lparr>text_ar = ''Sorry, I encountered an error while processing your question. Please try again later.'',
          sources_ar = [''System Error''],
          relatedObservationIds = None, relatedSpeciesIds = None\<rparr>
   \<and> snd (answerWithRAG_with (\<lambda>q. Inr []) (\<lambda>q. Inl (Error ''timeout''))
          (\<lambda>q info. Inr (generateResponse q info)) ''owl'') =
     Inr \<lparr>text_ar = ''Sorry, I encountered an error while processing your question. Please try again later.'',
          sources_ar = [''System Error''],
          relatedObservationIds = None, relatedSpeciesIds = None\<rparr>
   \<and> snd (answerWithRAG_with (\<lambda>q. Inr []) (\<lambda>q. Inr (searchInternet q))
          (\<lambda>q info. Inl (Error ''TypeError'')) ''owl'') =
     Inr \<lparr>text_ar = ''Sorry, I encountered an error while processing your question. Please try again later.'',
          sources_ar = [''System Error''],
          relatedObservationIds = None, relatedSpeciesIds = None\<rparr>"
  using
    answerWithRAG_never_throws [of "\<lambda>q. Inl (Error ''text.toLowerCase is not a function'')"
      "\<lambda>q. Inr (searchInternet q)" "\<lambda>q info. Inr (generateResponse q info)" "''owl''"]
    answerWithRAG_never_throws [of "\<lambda>q. Inr []" "\<lambda>q. Inl (Error ''timeout'')"
      "\<lambda>q info. Inr (generateResponse q info)" "''owl''"]
    answerWithRAG_never_throws [of "\<lambda>q. Inr []" "\<lambda>q. Inr (searchInternet q)"
      "\<lambda>q info. Inl (Error ''TypeError'')" "''owl''"]
  by (simp add: fallback_def searchInternet_eq)

subsection \<open>Dimensions\<close>

lemma length_addEntry: "length (addEntry embedding e) = length embedding"
  by (cases e) (simp add: addEntry_def)

lemma length_foldl_addEntry: "length (foldl addEntry embedding wordFreq) = length embedding"
  by (induction wordFreq arbitrary: embedding) (simp_all add: length_addEntry)

lemma length_createEmbedding: "length (createEmbedding t) = VECTOR_SIZE"
  by (simp add: createEmbedding_def Let_def length_foldl_addEntry split: jsval.splits)

lemma dot_Num:
  "length xs = length ys \<Longrightarrow>
   foldl (\<lambda>dotProduct (a, b). jsadd dotProduct (jsmul a b)) (Num d) (zip (map Num xs) (map Num ys))
     = Num (d + (\<Sum>(x, y)\<leftarrow>zip xs ys. x * y))"
proof (induction xs ys arbitrary: d rule: list_induct2)
  case Nil
  then show ?case by simp
next
  case (Cons x xs y ys)
  then show ?case by (simp add: add.assoc)
qed

lemma calculateSimilarity_embeddings:
  "\<exists>v. calculateSimilarity (createEmbedding a) (createEmbedding b) = Inr v"
  by (simp add: calculateSimilarity_def length_createEmbedding)

subsection \<open>The loops\<close>

lemma scoreLoop_returns:
  "length queryEmbedding = VECTOR_SIZE \<Longrightarrow> \<exists>rs. scoreLoop queryEmbedding doc xs results = Inr rs"
proof (induction xs arbitrary: results)
  case Nil
  then show ?case by simp
next
  case (Cons x xs)
  obtain embedded shown label where d: "doc x = (embedded, shown, label)"
    by (cases "doc x") auto
  obtain v where v: "calculateSimilarity queryEmbedding (createEmbedding embedded) = Inr v"
    using Cons.prems by (simp add: calculateSimilarity_def length_createEmbedding)
  show ?case
    using Cons.IH [OF Cons.prems, of "pushIfRelevant results shown label v"]
    by (simp add: d v)
qed

lemma pushIfRelevant_threshold:
  "\<forall>r\<in>set results. 0.2 < score_rr r \<Longrightarrow>
   \<forall>r\<in>set (pushIfRelevant results shown label v). 0.2 < score_rr r"
  by (cases v) (simp_all add: pushIfRelevant_def)

lemma scoreLoop_threshold:
  "scoreLoop queryEmbedding doc xs results = Inr rs \<Longrightarrow>
   \<forall>r\<in>set results. 0.2 < score_rr r \<Longrightarrow> \<forall>r\<in>set rs. 0.2 < score_rr r"
proof (induction xs arbitrary: results)
  case Nil
  then show ?case by simp
next
  case (Cons x xs)
  obtain embedded shown label where d: "doc x = (embedded, shown, label)"
    by (cases "doc x") auto
  obtain v where
    rec: "scoreLoop queryEmbedding doc xs (pushIfRelevant results shown label v) = Inr rs"
    using Cons.prems(1) by (simp add: d split: sum.splits)
  show ?case
    by (rule Cons.IH [OF rec pushIfRelevant_threshold [OF Cons.prems(2)]])
qed

lemma retrieveRelevantInfo_try_loops:
  "\<exists>r1 r2 r3.
     scoreLoop (createEmbedding query) knowledgeDoc (getAllKnowledge db) [] = Inr r1
     \<and> scoreLoop (createEmbedding query) speciesDoc (getAllSpecies db) r1 = Inr r2
     \<and> scoreLoop (createEmbedding query) obsDoc (recentObservations db) r2 = Inr r3"
proof -
  let ?q = "createEmbedding query"
  have len: "length ?q = VECTOR_SIZE" by (rule length_createEmbedding)
  obtain r1 where r1: "scoreLoop ?q knowledgeDoc (getAllKnowledge db) [] = Inr r1"
    using scoreLoop_returns [OF len] by blast
  obtain r2 where r2: "scoreLoop ?q speciesDoc (getAllSpecies db) r1 = Inr r2"
    using scoreLoop_returns [OF len] by blast
  obtain r3 where r3: "scoreLoop ?q obsDoc (recentObservations db) r2 = Inr r3"
    using scoreLoop_returns [OF len] by blast
  show ?thesis using r1 r2 r3 by blast
qed

lemma retrieveRelevantInfo_try_eq:
  assumes "scoreLoop (createEmbedding query) knowledgeDoc (getAllKnowledge db) [] = Inr r1"
    and "scoreLoop (createEmbedding query) speciesDoc (getAllSpecies db) r1 = Inr r2"
    and "scoreLoop (createEmbedding query) obsDoc (recentObservations db) r2 = Inr r3"
  shows "retrieveRelevantInfo_try db query = Inr (take 5 (sortByScore r3))"
  using assms by (simp add: retrieveRelevantInfo_try_def)

lemma retrieveRelevantInfo_eq:
  assumes "scoreLoop (createEmbedding query) knowledgeDoc (getAllKnowledge db) [] = Inr r1"
    and "scoreLoop (createEmbedding query) speciesDoc (getAllSpecies db) r1 = Inr r2"
    and "scoreLoop (createEmbedding query) obsDoc (recentObservations db) r2 = Inr r3"
  shows "retrieveRelevantInfo db query = take 5 (sortByScore r3)"
  using retrieveRelevantInfo_try_eq [OF assms] by (simp add: retrieveRelevantInfo_def)

lemma retrieveRelevantInfo_try_returns: "\<exists>results. retrieveRelevantInfo_try db query = Inr results"
  using retrieveRelevantInfo_try_loops [of query db] retrieveRelevantInfo_try_eq [of query db]
  by blast

text \<open>
  Claim C8. \<^verbatim>\<open>calculateSimilarity\<close> throws the dimension error when the two vectors differ
  in length, and returns the dot product of two numeric vectors of equal length. Every
  embedding has 128 components, so the comparison of two embeddings never throws, and the
  \<^verbatim>\<open>try\<close> body of \<^verbatim>\<open>retrieveRelevantInfo\<close> always returns.
\<close>

theorem calculateSimilarity_dimensions:
  "(length embedding1 \<noteq> length embedding2 \<longrightarrow>
      calculateSimilarity embedding1 embedding2 = Inl (Error ''Embeddings must have the same dimensions''))
   \<and> (length xs = length ys \<longrightarrow>
      calculateSimilarity (map Num xs) (map Num ys) = Inr (Num (\<Sum>(x, y)\<leftarrow>zip xs ys. x * y)))
   \<and> length (createEmbedding t) = 128
   \<and> (\<exists>similarity. calculateSimilarity (createEmbedding query) (createEmbedding t) = Inr similarity)
   \<and> (\<exists>results. retrieveRelevantInfo_try db query = Inr results)"
proof -
  have "length xs = length ys \<Longrightarrow>
      calculateSimilarity (map Num xs) (map Num ys) = Inr (Num (\<Sum>(x, y)\<leftarrow>zip xs ys. x * y))"
    using dot_Num [of xs ys 0] by (simp add: calculateSimilarity_def)
  moreover have "length (createEmbedding t) = 128"
    using length_createEmbedding [of t] by (simp add: VECTOR_SIZE_def)
  ultimately show ?thesis
    using retrieveRelevantInfo_try_returns [of db query] calculateSimilarity_embeddings [of query t]
    by (simp add: calculateSimilarity_def)
qed

text \<open>
  Claim C2. For every corpus and every query, every document that \<^verbatim>\<open>retrieveRelevantInfo\<close>
  returns has a score strictly above 0.2.
\<close>

theorem retrieve_above_threshold:
  "\<forall>r\<in>set (retrieveRelevantInfo db query). score_rr r > 0.2"
proof -
  let ?q = "createEmbedding query"
  obtain r1 r2 r3 where
    r1: "scoreLoop ?q knowledgeDoc (getAllKnowledge db) [] = Inr r1" and
    r2: "scoreLoop ?q speciesDoc (getAllSpecies db) r1 = Inr r2" and
    r3: "scoreLoop ?q obsDoc (recentObservations db) r2 = Inr r3"
    using retrieveRelevantInfo_try_loops [of query db] by blast
  have res: "retrieveRelevantInfo db query = take 5 (sortByScore r3)"
    by (rule retrieveRelevantInfo_eq [OF r1 r2 r3])
  have "\<forall>r\<in>set r1. 0.2 < score_rr r" using scoreLoop_threshold [OF r1] by simp
  then have "\<forall>r\<in>set r2. 0.2 < score_rr r" by (rule scoreLoop_threshold [OF r2])
  then have "\<forall>r\<in>set r3. 0.2 < score_rr r" by (rule scoreLoop_threshold [OF r3])
  then show ?thesis
    using set_take_subset [of 5 "sortByScore r3"] by (auto simp: res sortByScore_def)
qed

lemma sortByScore_sorted: "sorted_wrt (\<lambda>a b. score_rr a \<ge> score_rr b) (sortByScore results)"
proof -
  have "sorted (map (\<lambda>r. - score_rr r) (sortByScore results))"
    by (simp add: sortByScore_def)
  then show ?thesis by (simp add: sorted_map)
qed

text \<open>
  Claim C3. For every corpus and every query, \<^verbatim>\<open>retrieveRelevantInfo\<close> returns at most five
  documents, in descending order of score.
\<close>

theorem retrieve_top5_sorted:
  "length (retrieveRelevantInfo db query) \<le> 5
   \<and> sorted_wrt (\<lambda>a b. score_rr a \<ge> score_rr b) (retrieveRelevantInfo db query)"
proof -
  obtain r1 r2 r3 where
    "scoreLoop (createEmbedding query) knowledgeDoc (getAllKnowledge db) [] = Inr r1"
    "scoreLoop (createEmbedding query) speciesDoc (getAllSpecies db) r1 = Inr r2"
    "scoreLoop (createEmbedding query) obsDoc (recentObservations db) r2 = Inr r3"
    using retrieveRelevantInfo_try_loops [of query db] by blast
  then have "retrieveRelevantInfo db query = take 5 (sortByScore r3)"
    by (rule retrieveRelevantInfo_eq)
  then show ?thesis
    by (simp add: sorted_wrt_take sortByScore_sorted)
qed

subsection \<open>A query without retained tokens\<close>

lemma countWord_short: "length word \<le> 2 \<Longrightarrow> countWord wordFreq word = wordFreq"
  by (simp add: countWord_def)

lemma foldl_countWord_short:
  "\<forall>w\<in>set ws. length w \<le> 2 \<Longrightarrow> foldl countWord wordFreq ws = wordFreq"
  by (induction ws arbitrary: wordFreq) (simp_all add: countWord_short)

lemma sumsq_zero:
  "foldl (\<lambda>sum val. jsadd sum (jsmul val val)) (Num 0) (replicate n (Num 0)) = Num 0"
  by (induction n) simp_all

lemma createEmbedding_no_tokens:
  assumes "\<forall>w\<in>set (words_of t). length w \<le> 2"
  shows "createEmbedding t = replicate VECTOR_SIZE (Num 0)"
  by (simp add: createEmbedding_def foldl_countWord_short [OF assms] magnitude_def sumsq_zero)

lemma dot_zero:
  "acc = Num 0 \<or> acc = NotNum \<Longrightarrow>
   foldl (\<lambda>dotProduct (a, b). jsadd dotProduct (jsmul a b)) acc (zip (replicate n (Num 0)) e)
     \<in> {Num 0, NotNum}"
proof (induction e arbitrary: n acc)
  case Nil
  then show ?case by auto
next
  case (Cons b e)
  show ?case
  proof (cases n)
    case 0
    then show ?thesis using Cons.prems by auto
  next
    case (Suc m)
    have "jsadd acc (jsmul (Num 0) b) = Num 0 \<or> jsadd acc (jsmul (Num 0) b) = NotNum"
      using Cons.prems by (cases b) auto
    then show ?thesis
      using Cons.IH [of "jsadd acc (jsmul (Num 0) b)" m] by (simp add: Suc)
  qed
qed

lemma similarity_zero:
  "calculateSimilarity (replicate VECTOR_SIZE (Num 0)) (createEmbedding t) = Inr (Num 0)
   \<or> calculateSimilarity (replicate VECTOR_SIZE (Num 0)) (createEmbedding t) = Inr NotNum"
  using dot_zero [of "Num 0" VECTOR_SIZE "createEmbedding t"]
  by (simp add: calculateSimilarity_def length_createEmbedding)

lemma pushIfRelevant_zero:
  "v = Num 0 \<or> v = NotNum \<Longrightarrow> pushIfRelevant results shown label v = results"
  by (auto simp: pushIfRelevant_def)

lemma scoreLoop_zero:
  "scoreLoop (replicate VECTOR_SIZE (Num 0)) doc xs results = Inr results"
proof (induction xs)
  case Nil
  then show ?case by simp
next
  case (Cons x xs)
  obtain embedded shown label where d: "doc x = (embedded, shown, label)"
    by (cases "doc x") auto
  from similarity_zero [of embedded] show ?case
    by (auto simp: d pushIfRelevant_zero Cons.IH)
qed

lemma retrieve_no_tokens:
  assumes "\<forall>w\<in>set (words_of query). length w \<le> 2"
  shows "retrieveRelevantInfo db query = []"
proof -
  have "retrieveRelevantInfo db query = take 5 (sortByScore [])"
    by (rule retrieveRelevantInfo_eq)
       (simp_all add: createEmbedding_no_tokens [OF assms] scoreLoop_zero)
  then show ?thesis by (simp add: sortByScore_def)
qed


subsection \<open>Evaluating embeddings\<close>

lemma sum_list_update_real:
  fixes f :: "'a \<Rightarrow> real"
  shows "i < length xs \<Longrightarrow> (\<Sum>x\<leftarrow>xs[i := v]. f x) = (\<Sum>x\<leftarrow>xs. f x) - f (xs ! i) + f v"
proof (induction xs arbitrary: i)
  case Nil
  then show ?case by simp
next
  case (Cons x xs)
  then show ?case by (cases i) simp_all
qed

lemma sumsq_Num:
  "foldl (\<lambda>sum val. jsadd sum (jsmul val val)) (Num a) (map Num xs) = Num (a + (\<Sum>x\<leftarrow>xs. x * x))"
  by (induction xs arbitrary: a) (simp_all add: add.assoc)

lemma magnitude_Num: "magnitude (map Num xs) = Num (sqrt (\<Sum>x\<leftarrow>xs. x * x))"
proof -
  have "0 \<le> (\<Sum>x\<leftarrow>xs. x * x)" by (rule sum_list_nonneg) auto
  then show ?thesis by (simp add: magnitude_def sumsq_Num)
qed

lemma dot_zeros: "(\<Sum>(x, y)\<leftarrow>zip (replicate n (0::real)) ys. x * y) = 0"
  by (induction ys arbitrary: n) (simp, case_tac n, simp_all)

lemma dot_unit:
  "length ys = n \<Longrightarrow> i < n \<Longrightarrow>
   (\<Sum>(x, y)\<leftarrow>zip ((replicate n (0::real))[i := a]) ys. x * y) = a * ys ! i"
proof (induction ys arbitrary: n i)
  case Nil
  then show ?case by simp
next
  case (Cons y ys)
  then obtain m where n: "n = Suc m" by (cases n) auto
  show ?case
  proof (cases i)
    case 0
    then show ?thesis by (simp add: n dot_zeros)
  next
    case (Suc j)
    then show ?thesis using Cons.IH [of m j] Cons.prems by (simp add: n)
  qed
qed

lemma createEmbedding_Num:
  assumes "foldl countWord [] (words_of t) = wordFreq"
    and "foldl addEntry (replicate VECTOR_SIZE (Num 0)) wordFreq = map Num xs"
    and "sqrt (\<Sum>x\<leftarrow>xs. x * x) = m" and "m > 0"
  shows "createEmbedding t = map Num (map (\<lambda>v. v / m) xs)"
  using assms by (simp add: createEmbedding_def magnitude_Num o_def)

lemma position_eagle: "position ''eagle'' = 4"
  by code_simp

lemma position_hawk: "position ''hawk'' = 13"
  by code_simp

lemma embedding_query: "createEmbedding ''eagle'' = map Num ((replicate 128 0)[4 := 1])"
proof -
  have wf: "foldl countWord [] (words_of ''eagle'') = [(''eagle'', Num 1)]" by code_simp
  have raw: "foldl addEntry (replicate VECTOR_SIZE (Num 0)) [(''eagle'', Num 1)]
               = map Num ((replicate 128 0)[4 := 1])"
    by (simp add: addEntry_def position_eagle VECTOR_SIZE_def map_update)
  have m: "sqrt (\<Sum>x\<leftarrow>(replicate 128 (0::real))[4 := 1]. x * x) = 1"
    by (simp add: sum_list_update_real sum_list_replicate)
  show ?thesis using createEmbedding_Num [OF wf raw m] by simp
qed

lemma embedding_second:
  "createEmbedding ''Eagle An eagle.'' = map Num (map (\<lambda>v. v / 2) ((replicate 128 0)[4 := 2]))"
proof -
  have wf: "foldl countWord [] (words_of ''Eagle An eagle.'') = [(''eagle'', Num 2)]" by code_simp
  have raw: "foldl addEntry (replicate VECTOR_SIZE (Num 0)) [(''eagle'', Num 2)]
               = map Num ((replicate 128 0)[4 := 2])"
    by (simp add: addEntry_def position_eagle VECTOR_SIZE_def map_update)
  have "(\<Sum>x\<leftarrow>(replicate 128 (0::real))[4 := 2]. x * x) = 2\<^sup>2"
    by (simp add: sum_list_update_real sum_list_replicate)
  then have m: "sqrt (\<Sum>x\<leftarrow>(replicate 128 (0::real))[4 := 2]. x * x) = 2"
    by (simp only: real_sqrt_abs abs_numeral)
  show ?thesis using createEmbedding_Num [OF wf raw m] by simp
qed

lemma embedding_first:
  "createEmbedding
     ''Eagle eagle eagle eagle eagle hawk hawk hawk hawk hawk hawk hawk hawk hawk hawk hawk hawk''
     = map Num (map (\<lambda>v. v / 13) ((replicate 128 0)[4 := 5, 13 := 12]))"
proof -
  have wf: "foldl countWord []
      (words_of ''Eagle eagle eagle eagle eagle hawk hawk hawk hawk hawk hawk hawk hawk hawk hawk hawk hawk'')
              = [(''eagle'', Num 5), (''hawk'', Num 12)]"
    by code_simp
  have raw: "foldl addEntry (replicate VECTOR_SIZE (Num 0)) [(''eagle'', Num 5), (''hawk'', Num 12)]
               = map Num ((replicate 128 0)[4 := 5, 13 := 12])"
    by (simp add: addEntry_def position_eagle position_hawk VECTOR_SIZE_def map_update)
  have "(\<Sum>x\<leftarrow>(replicate 128 (0::real))[4 := 5, 13 := 12]. x * x) = 13\<^sup>2"
    by (simp add: sum_list_update_real sum_list_replicate)
  then have m: "sqrt (\<Sum>x\<leftarrow>(replicate 128 (0::real))[4 := 5, 13 := 12]. x * x) = 13"
    by (simp only: real_sqrt_abs abs_numeral)
  show ?thesis using createEmbedding_Num [OF wf raw m] by simp
qed

lemma similarity_unit:
  assumes "length ys = 128"
  shows "calculateSimilarity (map Num ((replicate 128 0)[4 := 1])) (map Num ys) = Inr (Num (ys ! 4))"
proof -
  have "foldl (\<lambda>dotProduct (a, b). jsadd dotProduct (jsmul a b)) (Num 0)
          (zip (map Num ((replicate 128 0)[4 := 1])) (map Num ys))
        = Num (0 + (\<Sum>(x, y)\<leftarrow>zip ((replicate 128 0)[4 := 1]) ys. x * y))"
    by (rule dot_Num) (simp add: assms)
  then show ?thesis
    using dot_unit [of ys 128 4 1] by (simp add: calculateSimilarity_def assms)
qed

lemma similarity_hawk:
  "calculateSimilarity (createEmbedding ''eagle'')
     (createEmbedding
        ''Eagle eagle eagle eagle eagle hawk hawk hawk hawk hawk hawk hawk hawk hawk hawk hawk hawk'')
     = Inr (Num (5 / 13))"
  unfolding embedding_query embedding_first by (subst similarity_unit) simp_all

lemma similarity_guide:
  "calculateSimilarity (createEmbedding ''eagle'') (createEmbedding ''Eagle An eagle.'')
     = Inr (Num 1)"
  unfolding embedding_query embedding_second by (subst similarity_unit) simp_all

lemma retrieve_hawk:
  "retrieveRelevantInfo hawkDb ''eagle'' =
     [\<lparr>text_rr = content hawkEntry, source_rr = ''Internal Knowledge Base'',
       score_rr = 5 / 13\<rparr>]"
proof -
  have loop: "scoreLoop (createEmbedding ''eagle'') knowledgeDoc (getAllKnowledge hawkDb) [] =
      Inr [\<lparr>text_rr = content hawkEntry, source_rr = ''Internal Knowledge Base'',
             score_rr = 5 / 13\<rparr>]"
    by (simp add: getAllKnowledge_def hawkDb_def hawkEntry_def knowledgeDoc_def
          similarity_hawk pushIfRelevant_def)
  have "retrieveRelevantInfo hawkDb ''eagle'' = take 5 (sortByScore
          [\<lparr>text_rr = content hawkEntry, source_rr = ''Internal Knowledge Base'',
             score_rr = 5 / 13\<rparr>])"
    by (rule retrieveRelevantInfo_eq [OF loop])
       (simp_all add: getAllSpecies_def recentObservations_def getAllObservations_def hawkDb_def)
  then show ?thesis by (simp add: sortByScore_def)
qed

lemma retrieve_eagle:
  "retrieveRelevantInfo eagleDb ''eagle'' =
     [\<lparr>text_rr = ''An eagle.'', source_rr = ''Field guide'', score_rr = 1\<rparr>,
      \<lparr>text_rr = ''An eagle.'', source_rr = ''Field guide'', score_rr = 1\<rparr>,
      \<lparr>text_rr = ''An eagle.'', source_rr = ''Field guide'', score_rr = 1\<rparr>,
      \<lparr>text_rr = content hawkEntry, source_rr = ''Internal Knowledge Base'', score_rr = 5 / 13\<rparr>,
      \<lparr>text_rr = content hawkEntry, source_rr = ''Internal Knowledge Base'', score_rr = 5 / 13\<rparr>]"
proof -
  let ?h = "\<lparr>text_rr = content hawkEntry, source_rr = ''Internal Knowledge Base'',
             score_rr = 5 / 13\<rparr>"
  let ?g = "\<lparr>text_rr = ''An eagle.'', source_rr = ''Field guide'', score_rr = 1\<rparr>"
  have loop: "scoreLoop (createEmbedding ''eagle'') knowledgeDoc (getAllKnowledge eagleDb) [] =
      Inr [?h, ?g, ?h, ?g, ?h, ?g]"
    by (simp add: getAllKnowledge_def eagleDb_def hawkEntry_def guideEntry_def knowledgeDoc_def
          similarity_hawk similarity_guide pushIfRelevant_def)
  have "retrieveRelevantInfo eagleDb ''eagle'' = take 5 (sortByScore [?h, ?g, ?h, ?g, ?h, ?g])"
    by (rule retrieveRelevantInfo_eq [OF loop])
       (simp_all add: getAllSpecies_def recentObservations_def getAllObservations_def eagleDb_def)
  then show ?thesis by (simp add: sortByScore_def)
qed

theorem retrieve_above_threshold_witness:
  "map score_rr (retrieveRelevantInfo eagleDb ''eagle'') = [1, 1, 1, 5 / 13, 5 / 13]
   \<and> (0.2 :: real) < 5 / 13"
  using retrieve_above_threshold [of eagleDb "''eagle''"] by (simp add: retrieve_eagle)

theorem retrieve_top5_sorted_witness:
  "length (getAllKnowledge eagleDb) = 6
   \<and> length (retrieveRelevantInfo eagleDb ''eagle'') = 5
   \<and> map score_rr (retrieveRelevantInfo eagleDb ''eagle'') = [1, 1, 1, 5 / 13, 5 / 13]"
proof -
  have six: "length (getAllKnowledge eagleDb) = 6"
    by (simp add: getAllKnowledge_def eagleDb_def)
  show ?thesis
    using retrieve_top5_sorted [of eagleDb "''eagle''"] six by (simp add: retrieve_eagle)
qed

theorem calculateSimilarity_dimensions_witness:
  "calculateSimilarity [Num 1, Num 0] [Num 1] = Inl (Error ''Embeddings must have the same dimensions'')
   \<and> calculateSimilarity [Num 1, Num 2] [Num 3, Num 4] = Inr (Num 11)
   \<and> length (createEmbedding ''Eagle An eagle.'') = 128
   \<and> calculateSimilarity (createEmbedding ''eagle'') (createEmbedding ''Eagle An eagle.'') = Inr (Num 1)"
  using calculateSimilarity_dimensions [where ?embedding1.0 = "[Num 1, Num 0]"
      and ?embedding2.0 = "[Num 1]" and xs = "[1, 2]" and ys = "[3, 4]"
      and t = "''Eagle An eagle.''" and query = "''eagle''" and db = eagleDb]
  by (simp add: similarity_guide)

lemma answerWithRAG_eq:
  "answerWithRAG db query =
   (let localResults = retrieveRelevantInfo db query;
        external = (if length localResults < 2 then searchInternet query else [])
    in (if length localResults < 2
        then [RetrieveRelevantInfo, SearchInternet, GenerateResponse]
        else [RetrieveRelevantInfo, GenerateResponse],
        Inr \<lparr>text_ar = generateResponse query (localResults @ external),
             sources_ar = map source_rr localResults @ map source_rr external,
             relatedObservationIds = Some [],
             relatedSpeciesIds = Some []\<rparr>))"
  by (simp add: answerWithRAG_def answerWithRAG_with_def answerWithRAG_try_module Let_def)

text \<open>
  Claim C6. When every word of the query (after lower-casing, stripping and splitting) has
  at most two characters, the embedding of the query is the zero vector, its similarity
  with the embedding of any text is 0 (or \<open>NaN\<close>, for a text whose embedding has a cell that
  is no number), retrieval returns nothing whatever the corpus holds, and the orchestrator
  calls the fallback search: the only source of the answer is the internet search result.
\<close>

theorem no_tokens_forces_fallback:
  assumes "\<forall>w\<in>set (words_of query). length w \<le> 2"
  shows "createEmbedding query = replicate 128 (Num 0)
    \<and> (calculateSimilarity (createEmbedding query) (createEmbedding t) = Inr (Num 0)
         \<or> calculateSimilarity (createEmbedding query) (createEmbedding t) = Inr NotNum)
    \<and> retrieveRelevantInfo db query = []
    \<and> fst (answerWithRAG db query) = [RetrieveRelevantInfo, SearchInternet, GenerateResponse]
    \<and> (\<exists>answer. snd (answerWithRAG db query) = Inr answer
          \<and> sources_ar answer =
              [''Internet Search Result (Note: Without internet access, this is general information)''])"
proof -
  have e: "createEmbedding query = replicate 128 (Num 0)"
    using createEmbedding_no_tokens [OF assms] by (simp add: VECTOR_SIZE_def)
  have r: "retrieveRelevantInfo db query = []"
    by (rule retrieve_no_tokens [OF assms])
  have z: "calculateSimilarity (createEmbedding query) (createEmbedding t) = Inr (Num 0)
         \<or> calculateSimilarity (createEmbedding query) (createEmbedding t) = Inr NotNum"
    using similarity_zero [of t] by (simp add: createEmbedding_no_tokens [OF assms])
  have a: "fst (answerWithRAG db query) = [RetrieveRelevantInfo, SearchInternet, GenerateResponse]
    \<and> (\<exists>answer. snd (answerWithRAG db query) = Inr answer
          \<and> sources_ar answer =
              [''Internet Search Result (Note: Without internet access, this is general information)''])"
    by (simp add: r answerWithRAG_eq searchInternet_eq internetResult_def)
  show ?thesis using e z r a by blast
qed

theorem no_tokens_forces_fallback_witness:
  "words_of ''Is it?  x y'' = [''is'', ''it'', ''x'', ''y'']
   \<and> createEmbedding ''Is it?  x y'' = replicate 128 (Num 0)
   \<and> retrieveRelevantInfo eagleDb ''Is it?  x y'' = []
   \<and> fst (answerWithRAG eagleDb ''Is it?  x y'')
        = [RetrieveRelevantInfo, SearchInternet, GenerateResponse]"
proof -
  have w: "words_of ''Is it?  x y'' = [''is'', ''it'', ''x'', ''y'']" by code_simp
  have h: "\<forall>w\<in>set (words_of ''Is it?  x y''). length w \<le> 2" by (simp add: w)
  show ?thesis using no_tokens_forces_fallback [OF h, where db = eagleDb and t = "''An eagle.''"] w by simp
qed

text \<open>
  Claim C1. \<^verbatim>\<open>answerWithRAG\<close> calls \<^verbatim>\<open>searchInternet\<close> exactly when retrieval returned fewer
  than two documents. The external results are appended to the local ones, which are kept
  in their order: the sources of the answer are the local labels followed by the external
  ones, and the answer text is composed from that sequence.
\<close>

theorem fallback_iff_fewer_than_two:
  "(SearchInternet \<in> set (fst (answerWithRAG db query))
      \<longleftrightarrow> length (retrieveRelevantInfo db query) < 2)
   \<and> fst (answerWithRAG db query) =
       (if length (retrieveRelevantInfo db query) < 2
        then [RetrieveRelevantInfo, SearchInternet, GenerateResponse]
        else [RetrieveRelevantInfo, GenerateResponse])
   \<and> snd (answerWithRAG db query) =
       (let localResults = retrieveRelevantInfo db query;
            external = (if length localResults < 2 then searchInternet query else [])
        in Inr \<lparr>text_ar = generateResponse query (localResults @ external),
                sources_ar = map source_rr localResults @ map source_rr external,
                relatedObservationIds = Some [],
                relatedSpeciesIds = Some []\<rparr>)"
  by (simp add: answerWithRAG_eq Let_def)

theorem fallback_iff_fewer_than_two_witness:
  "fst (answerWithRAG emptyDb ''eagle'') = [RetrieveRelevantInfo, SearchInternet, GenerateResponse]
   \<and> fst (answerWithRAG hawkDb ''eagle'') = [RetrieveRelevantInfo, SearchInternet, GenerateResponse]
   \<and> map score_rr (retrieveRelevantInfo hawkDb ''eagle'' @ searchInternet ''eagle'')
        = [5 / 13, 0.6]
   \<and> (\<exists>answer. snd (answerWithRAG hawkDb ''eagle'') = Inr answer \<and> sources_ar answer =
         [''Internal Knowledge Base'',
          ''Internet Search Result (Note: Without internet access, this is general information)''])
   \<and> fst (answerWithRAG eagleDb ''eagle'') = [RetrieveRelevantInfo, GenerateResponse]
   \<and> (\<exists>answer. snd (answerWithRAG eagleDb ''eagle'') = Inr answer \<and> sources_ar answer =
         [''Field guide'', ''Field guide'', ''Field guide'',
          ''Internal Knowledge Base'', ''Internal Knowledge Base''])"
  using fallback_iff_fewer_than_two [of emptyDb "''eagle''"]
    fallback_iff_fewer_than_two [of hawkDb "''eagle''"]
    fallback_iff_fewer_than_two [of eagleDb "''eagle''"]
  by (simp add: retrieve_emptyDb retrieve_hawk retrieve_eagle searchInternet_eq internetResult_def)

subsection \<open>Texts without the two inherited words\<close>

lemma counted_update:
  "counted wordFreq \<Longrightarrow> 1 \<le> k \<Longrightarrow> counted (AList.update word (Num k) wordFreq)"
  by (induction wordFreq) (auto simp: counted_def)

lemma counted_lookup:
  "counted wordFreq \<Longrightarrow> map_of wordFreq word = Some v \<Longrightarrow> \<exists>k. v = Num k \<and> 1 \<le> k"
  by (auto simp: counted_def list_all_iff dest!: map_of_SomeD)

lemma counted_countWord:
  assumes "counted wordFreq" and "word \<noteq> ''constructor''" and "word \<noteq> ''__proto__''"
  shows "counted (countWord wordFreq word)"
proof (cases "map_of wordFreq word")
  case None
  then show ?thesis
    using assms counted_update [of wordFreq 1 word] by (simp add: countWord_def)
next
  case (Some v)
  then obtain k where "v = Num k" "1 \<le> k" using counted_lookup [OF assms(1)] by blast
  then show ?thesis
    using assms Some counted_update [of wordFreq "k + 1" word] by (simp add: countWord_def)
qed

lemma counted_foldl:
  "counted wordFreq \<Longrightarrow> ''constructor'' \<notin> set ws \<Longrightarrow> ''__proto__'' \<notin> set ws \<Longrightarrow>
   counted (foldl countWord wordFreq ws)"
  by (induction ws arbitrary: wordFreq) (auto simp: counted_countWord)

lemma update_not_Nil: "AList.update k v al \<noteq> []"
  by (cases al) auto

lemma countWord_keeps: "wordFreq \<noteq> [] \<Longrightarrow> countWord wordFreq word \<noteq> []"
  by (simp add: countWord_def Let_def update_not_Nil)

lemma foldl_countWord_keeps: "wordFreq \<noteq> [] \<Longrightarrow> foldl countWord wordFreq ws \<noteq> []"
  by (induction ws arbitrary: wordFreq) (simp_all add: countWord_keeps)

lemma foldl_countWord_not_Nil:
  "\<exists>w\<in>set ws. 2 < length w \<and> w \<noteq> ''__proto__'' \<Longrightarrow> foldl countWord wordFreq ws \<noteq> []"
proof (induction ws arbitrary: wordFreq)
  case Nil
  then show ?case by simp
next
  case (Cons w ws)
  show ?case
  proof (cases "2 < length w \<and> w \<noteq> ''__proto__''")
    case True
    then have "countWord wordFreq w \<noteq> []"
      by (simp add: countWord_def Let_def update_not_Nil)
    then show ?thesis by (simp add: foldl_countWord_keeps)
  next
    case False
    then show ?thesis using Cons by auto
  qed
qed

text \<open>The raw vector of counted frequencies: numbers that are not negative, one of them
  at least 1.\<close>

lemma addEntry_Num:
  "length xs = VECTOR_SIZE \<Longrightarrow>
   addEntry (map Num xs) (w, Num k) = map Num (xs[position w := xs ! position w + k])"
  by (simp add: addEntry_def map_update position_def VECTOR_SIZE_def)

lemma raw_counted:
  assumes "counted wordFreq" and "length xs = VECTOR_SIZE" and "\<forall>x\<in>set xs. 0 \<le> x"
    and "wordFreq \<noteq> [] \<or> (\<exists>x\<in>set xs. 1 \<le> x)"
  shows "\<exists>ys. foldl addEntry (map Num xs) wordFreq = map Num ys \<and> length ys = VECTOR_SIZE
            \<and> (\<forall>y\<in>set ys. 0 \<le> y) \<and> (\<exists>y\<in>set ys. 1 \<le> y)"
  using assms
proof (induction wordFreq arbitrary: xs)
  case Nil
  then show ?case by auto
next
  case (Cons e wordFreq)
  obtain w k where e: "e = (w, Num k)" and k: "1 \<le> k"
    using Cons.prems(1) by (cases e) (auto simp: counted_def)
  let ?p = "position w"
  let ?xs = "xs[?p := xs ! ?p + k]"
  have p: "?p < length xs"
    using Cons.prems(2) by (simp add: position_def VECTOR_SIZE_def)
  have c: "counted wordFreq" using Cons.prems(1) by (simp add: counted_def)
  have l: "length ?xs = VECTOR_SIZE" using Cons.prems(2) by simp
  have "0 \<le> xs ! ?p" using Cons.prems(3) p by simp
  then have big: "1 \<le> ?xs ! ?p" using k p by simp
  have n: "\<forall>x\<in>set ?xs. 0 \<le> x"
  proof
    fix x assume "x \<in> set ?xs"
    then have "x \<in> insert (xs ! ?p + k) (set xs)"
      using set_update_subset_insert [of xs ?p "xs ! ?p + k"] by blast
    then show "0 \<le> x" using Cons.prems(3) \<open>0 \<le> xs ! ?p\<close> k by auto
  qed
  have o: "wordFreq \<noteq> [] \<or> (\<exists>x\<in>set ?xs. 1 \<le> x)"
    using big p by (metis length_list_update nth_mem)
  show ?case
    using Cons.IH [OF c l n o] by (simp add: e addEntry_Num [OF Cons.prems(2)])
qed

lemma sumsq_positive:
  fixes ys :: "real list"
  assumes "\<forall>y\<in>set ys. 0 \<le> y" and "\<exists>y\<in>set ys. 1 \<le> y"
  shows "0 < (\<Sum>y\<leftarrow>ys. y * y)"
proof -
  obtain y where y: "y \<in> set ys" "1 \<le> y" using assms(2) by blast
  have "y * y \<le> (\<Sum>y\<leftarrow>ys. y * y)"
    by (rule member_le_sum_list) (use y in auto)
  moreover have "1 * 1 \<le> y * y" by (rule mult_mono) (use y in auto)
  ultimately show ?thesis by linarith
qed

lemma normalised_unit:
  fixes ys :: "real list"
  assumes "0 < (\<Sum>y\<leftarrow>ys. y * y)"
  shows "magnitude (map Num (map (\<lambda>v. v / sqrt (\<Sum>y\<leftarrow>ys. y * y)) ys)) = Num 1"
proof -
  let ?s = "\<Sum>y\<leftarrow>ys. y * y"
  have "(\<Sum>x\<leftarrow>map (\<lambda>v. v / sqrt ?s) ys. x * x) = (\<Sum>y\<leftarrow>ys. (y * y) * (1 / ?s))"
    using assms by (simp add: o_def field_simps)
  also have "\<dots> = ?s * (1 / ?s)" by (rule sum_list_mult_const)
  also have "\<dots> = 1" using assms by simp
  finally have one: "(\<Sum>x\<leftarrow>map (\<lambda>v. v / sqrt ?s) ys. x * x) = 1" .
  have "magnitude (map Num (map (\<lambda>v. v / sqrt ?s) ys))
          = Num (sqrt (\<Sum>x\<leftarrow>map (\<lambda>v. v / sqrt ?s) ys. x * x))"
    by (rule magnitude_Num)
  then show ?thesis by (simp only: one real_sqrt_one)
qed

text \<open>Away from the two inherited words, a text with a retained word has an embedding of
  Euclidean norm 1.\<close>

lemma createEmbedding_unit:
  assumes "\<exists>w\<in>set (words_of t). 2 < length w"
    and "''constructor'' \<notin> set (words_of t)" and "''__proto__'' \<notin> set (words_of t)"
  shows "magnitude (createEmbedding t) = Num 1"
proof -
  let ?wf = "foldl countWord [] (words_of t)"
  have c: "counted ?wf"
    by (rule counted_foldl) (simp_all add: counted_def assms)
  have ne: "?wf \<noteq> []"
    by (rule foldl_countWord_not_Nil) (use assms in auto)
  have z: "replicate VECTOR_SIZE (Num 0) = map Num (replicate VECTOR_SIZE 0)" by simp
  obtain ys where raw: "foldl addEntry (replicate VECTOR_SIZE (Num 0)) ?wf = map Num ys"
    and nn: "\<forall>y\<in>set ys. 0 \<le> y" and one: "\<exists>y\<in>set ys. 1 \<le> y"
    unfolding z using raw_counted [OF c, of "replicate VECTOR_SIZE 0"] ne by auto
  have pos: "0 < (\<Sum>y\<leftarrow>ys. y * y)" by (rule sumsq_positive [OF nn one])
  then have m: "0 < sqrt (\<Sum>y\<leftarrow>ys. y * y)" by simp
  have "createEmbedding t = map Num (map (\<lambda>v. v / sqrt (\<Sum>y\<leftarrow>ys. y * y)) ys)"
    by (rule createEmbedding_Num [OF refl raw refl m])
  then show ?thesis by (simp only: normalised_unit [OF pos])
qed

subsection \<open>Words that are properties of every object\<close>

lemma sumsq_from_NotNum:
  "foldl (\<lambda>sum val. jsadd sum (jsmul val val)) NotNum embedding = NotNum"
  by (induction embedding) simp_all

lemma sumsq_NotNum:
  "NotNum \<in> set embedding \<Longrightarrow>
   foldl (\<lambda>sum val. jsadd sum (jsmul val val)) acc embedding = NotNum"
proof (induction embedding arbitrary: acc)
  case Nil
  then show ?case by simp
next
  case (Cons v embedding)
  show ?case
  proof (cases "v = NotNum")
    case True
    then show ?thesis by (simp add: sumsq_from_NotNum)
  next
    case False
    then show ?thesis using Cons by simp
  qed
qed

lemma magnitude_NotNum: "NotNum \<in> set embedding \<Longrightarrow> magnitude embedding = NotNum"
  by (simp add: magnitude_def sumsq_NotNum)

lemma createEmbedding_NotNum:
  assumes "foldl countWord [] (words_of t) = wordFreq"
    and "foldl addEntry (replicate VECTOR_SIZE (Num 0)) wordFreq = embedding"
    and "magnitude embedding = NotNum"
  shows "createEmbedding t = embedding"
  using assms by (simp add: createEmbedding_def)

text \<open>
  Claim C4 (a retained word gives a unit vector) at the texts \<^verbatim>\<open>constructor\<close> and
  \<^verbatim>\<open>__proto__\<close>. Each is one retained word. For the first, the frequency read from the
  prototype is no number, the cell of the word is no number, the magnitude is \<open>NaN\<close> and the
  vector is returned as it is, not normalised. For the second no frequency is stored, and
  the vector is the zero vector, of magnitude 0.
\<close>

theorem createEmbedding_constructor:
  "words_of ''constructor'' = [''constructor'']
   \<and> createEmbedding ''constructor'' = (replicate 128 (Num 0))[6 := NotNum]
   \<and> magnitude (createEmbedding ''constructor'') = NotNum
   \<and> words_of ''__proto__'' = [''__proto__'']
   \<and> createEmbedding ''__proto__'' = replicate 128 (Num 0)
   \<and> magnitude (createEmbedding ''__proto__'') = Num 0"
proof -
  have w1: "words_of ''constructor'' = [''constructor'']" by code_simp
  have w2: "words_of ''__proto__'' = [''__proto__'']" by code_simp
  have wf1: "foldl countWord [] (words_of ''constructor'') = [(''constructor'', NotNum)]"
    by code_simp
  have wf2: "foldl countWord [] (words_of ''__proto__'') = []" by code_simp
  have p: "position ''constructor'' = 6" by code_simp
  have raw: "foldl addEntry (replicate VECTOR_SIZE (Num 0)) [(''constructor'', NotNum)]
               = (replicate 128 (Num 0))[6 := NotNum]"
    by (simp add: addEntry_def p VECTOR_SIZE_def)
  have m: "magnitude ((replicate 128 (Num 0))[6 := NotNum]) = NotNum"
    by (rule magnitude_NotNum) (simp add: set_update_memI)
  have e1: "createEmbedding ''constructor'' = (replicate 128 (Num 0))[6 := NotNum]"
    by (rule createEmbedding_NotNum [OF wf1 raw m])
  have m0: "magnitude (replicate 128 (Num 0)) = Num 0"
    by (simp add: magnitude_def sumsq_zero)
  have e2: "createEmbedding ''__proto__'' = replicate 128 (Num 0)"
    by (simp add: createEmbedding_def wf2 VECTOR_SIZE_def m0)
  show ?thesis by (simp add: w1 w2 e1 e2 m m0)
qed

subsection \<open>The observations that are scored\<close>

text \<open>
  Claim C7 (the fifty most recent observations are scored) at a store of fifty-one
  sightings returned in the order of insertion: the observations scored are the first
  fifty, each older than the newest sighting, which is in the store and is not scored.
\<close>

theorem recentObservations_oldest_fifty:
  "recentObservations sightingsDb = map sighting [1..<51]
   \<and> sighting 51 \<in> set (getAllObservations sightingsDb)
   \<and> sighting 51 \<notin> set (recentObservations sightingsDb)
   \<and> list_all (\<lambda>observation. createdAt observation < createdAt (sighting 51))
        (recentObservations sightingsDb)"
proof -
  have r: "recentObservations sightingsDb = map sighting [1..<51]"
    by (simp add: recentObservations_def getAllObservations_def sightingsDb_def take_map)
  have a: "sighting 51 \<in> set (getAllObservations sightingsDb)"
    by (simp add: getAllObservations_def sightingsDb_def)
  have n: "sighting 51 \<notin> set (map sighting [1..<51])"
    by (auto simp: sighting_def)
  have l: "list_all (\<lambda>observation. createdAt observation < createdAt (sighting 51))
             (map sighting [1..<51])"
    by (simp add: list_all_iff sighting_def)
  show ?thesis using a n l by (simp add: r)
qed

end
